theory Spec2Isabelle
  imports Complex_Main "HOL-Library.Word" "HOL-Library.Multiset"
begin

unbundle bit_operations_syntax

section \<open>Python strings\<close>

text \<open>
  A Python \<^verbatim>\<open>str\<close> is modelled as the list of its code points. The type
  \<^typ>\<open>char\<close> has 256 values, so the model covers the strings whose code points lie
  in the range 0..255 (ASCII and Latin-1); \<^const>\<open>length\<close> is Python's \<^verbatim>\<open>len\<close>
  on them. The character classes below are Python's own tables for that range.
\<close>

definition py_isspace :: "char \<Rightarrow> bool" where
  \<comment> \<open>\<^verbatim>\<open>str.isspace\<close>, also the class \<^verbatim>\<open>\s\<close> of \<^verbatim>\<open>re\<close>:
      TAB, LF, VT, FF, CR, FS, GS, RS, US, SPACE, NEL (0x85), NBSP (0xA0).\<close>
  "py_isspace c =
     (let n = (of_char c :: nat)
      in (9 \<le> n \<and> n \<le> 13) \<or> (28 \<le> n \<and> n \<le> 32) \<or> n = 133 \<or> n = 160)"

definition py_lstrip :: "(char \<Rightarrow> bool) \<Rightarrow> string \<Rightarrow> string" where
  "py_lstrip P s = dropWhile P s"

definition py_rstrip :: "(char \<Rightarrow> bool) \<Rightarrow> string \<Rightarrow> string" where
  "py_rstrip P s = rev (dropWhile P (rev s))"

definition py_strip_chars :: "(char \<Rightarrow> bool) \<Rightarrow> string \<Rightarrow> string" where
  "py_strip_chars P s = py_rstrip P (py_lstrip P s)"

definition py_strip :: "string \<Rightarrow> string" where
  \<comment> \<open>\<^verbatim>\<open>s.strip()\<close>\<close>
  "py_strip s = py_strip_chars py_isspace s"

definition py_slice :: "'a list \<Rightarrow> int \<Rightarrow> int \<Rightarrow> 'a list" where
  \<comment> \<open>\<^verbatim>\<open>xs[a:b]\<close>: a negative bound counts from the end, and both bounds are
      clamped to the list.\<close>
  "py_slice xs a b =
     (let n = int (length xs);
          lo = (if a < 0 then max (a + n) 0 else min a n);
          hi = (if b < 0 then max (b + n) 0 else min b n)
      in take (nat (hi - lo)) (drop (nat lo) xs))"

section \<open>The chunker (services/embeddings.py)\<close>

text \<open>
  \<^verbatim>\<open>
  def chunk_text(text, chunk_size=500, overlap=50):
      if not text: return []
      chunks = []; start = 0; text_len = len(text)
      while start < text_len:
          end = start + chunk_size
          chunk = text[start:end]
          if chunk.strip(): chunks.append(chunk.strip())
          start += chunk_size - overlap
      return chunks
  \<close>
  The loop need not end, so it is a partial function into \<open>option\<close>: the value
  \<open>None\<close> stands for a call that never returns.
\<close>

partial_function (option) chunk_loop ::
  "string \<Rightarrow> int \<Rightarrow> int \<Rightarrow> int \<Rightarrow> string list \<Rightarrow> string list option" where
  "chunk_loop text chunk_size overlap start chunks =
     (if start < int (length text) then
        (let end = start + chunk_size;
             chunk = py_slice text start end;
             chunks' = (if py_strip chunk \<noteq> [] then chunks @ [py_strip chunk] else chunks)
         in chunk_loop text chunk_size overlap (start + (chunk_size - overlap)) chunks')
      else Some chunks)"

declare chunk_loop.simps [code]

definition chunk_text :: "string \<Rightarrow> int \<Rightarrow> int \<Rightarrow> string list option" where
  "chunk_text text chunk_size overlap =
     (if text = [] then Some [] else chunk_loop text chunk_size overlap 0 [])"

section \<open>Exceptions\<close>

text \<open>
  A Python exception is a value: its class, as far as some handler of the program tells
  classes apart, and its message, which \<^verbatim>\<open>str(e)\<close> reads. A computation that may
  raise returns \<open>exn + 'a\<close>, with \<open>Inl\<close> for the exception.
\<close>

datatype exn_class = ValueError | MultipleResultsFound | OtherException

datatype exn = Exn exn_class string

fun exn_class_of :: "exn \<Rightarrow> exn_class" where
  "exn_class_of (Exn k m) = k"

fun py_str_exn :: "exn \<Rightarrow> string" where
  \<comment> \<open>\<^verbatim>\<open>str(e)\<close>\<close>
  "py_str_exn (Exn k m) = m"

fun map_exn :: "('a \<Rightarrow> exn + 'b) \<Rightarrow> 'a list \<Rightarrow> exn + 'b list" where
  \<comment> \<open>a \<^verbatim>\<open>for\<close> loop that collects results and stops at the first exception\<close>
  "map_exn f [] = Inr []"
| "map_exn f (x # xs) =
     (case f x of
        Inl e \<Rightarrow> Inl e
      | Inr y \<Rightarrow> (case map_exn f xs of Inl e \<Rightarrow> Inl e | Inr ys \<Rightarrow> Inr (y # ys)))"

section \<open>More of Python's strings and paths\<close>

definition py_lower_char :: "char \<Rightarrow> char" where
  \<comment> \<open>\<^verbatim>\<open>str.lower\<close> on one code point below 256: A-Z, and the Latin-1 capitals
      0xC0-0xDE without the multiplication sign 0xD7, move up by 32.\<close>
  "py_lower_char c =
     (let n = (of_char c :: nat)
      in if (65 \<le> n \<and> n \<le> 90) \<or> (192 \<le> n \<and> n \<le> 214) \<or> (216 \<le> n \<and> n \<le> 222)
         then char_of (n + 32) else c)"

definition py_lower :: "string \<Rightarrow> string" where
  "py_lower s = map py_lower_char s"

definition py_endswith :: "string \<Rightarrow> string \<Rightarrow> bool" where
  "py_endswith s suffix = (length suffix \<le> length s \<and> drop (length s - length suffix) s = suffix)"

fun py_join :: "string \<Rightarrow> string list \<Rightarrow> string" where
  \<comment> \<open>\<^verbatim>\<open>sep.join(xs)\<close>\<close>
  "py_join sep [] = []"
| "py_join sep [x] = x"
| "py_join sep (x # y # ys) = x @ sep @ py_join sep (y # ys)"

definition os_path_isabs :: "string \<Rightarrow> bool" where
  \<comment> \<open>POSIX \<^verbatim>\<open>os.path.isabs\<close>\<close>
  "os_path_isabs p = (case p of [] \<Rightarrow> False | c # _ \<Rightarrow> c = CHR ''/'')"

definition os_path_join :: "string \<Rightarrow> string \<Rightarrow> string" where
  \<comment> \<open>POSIX \<^verbatim>\<open>os.path.join\<close> of two components\<close>
  "os_path_join a b =
     (if os_path_isabs b then b
      else if a = [] \<or> last a = CHR ''/'' then a @ b
      else a @ ''/'' @ b)"

section \<open>The text extractor (services/ocr.py)\<close>

text \<open>
  The OCR engine, the PDF rasteriser, the image library, the MIME sniffer, the file
  system and the vision model are outside the program. They are the fields of an
  environment; each call that can raise returns \<open>exn + _\<close>. \<open>'img\<close> is the type of
  a decoded image. \<open>vision_generate\<close> stands for lines 80-104 of
  \<^verbatim>\<open>_ollama_vision_ocr\<close>: encoding the image, the HTTP request and reading
  \<^verbatim>\<open>data.get("response", "")\<close>.
\<close>

record 'img ocr_env =
  MEDIA_DIR :: string
  os_path_exists :: "string \<Rightarrow> bool"
  magic_from_file :: "string \<Rightarrow> exn + string"
  convert_from_path :: "string \<Rightarrow> exn + 'img list"
  Image_open :: "string \<Rightarrow> exn + 'img"
  image_to_string :: "'img \<Rightarrow> exn + string"
  vision_generate :: "'img \<Rightarrow> exn + string"

definition resolve_path :: "'img ocr_env \<Rightarrow> string \<Rightarrow> string" where
  "resolve_path env file_path =
     (if os_path_isabs file_path then file_path else os_path_join (MEDIA_DIR env) file_path)"

definition mime_map :: "string \<Rightarrow> string option" where
  "mime_map = map_of
     [(''pdf'', ''application/pdf''), (''png'', ''image/png''), (''jpg'', ''image/jpeg''),
      (''jpeg'', ''image/jpeg''), (''tiff'', ''image/tiff''), (''tif'', ''image/tiff''),
      (''webp'', ''image/webp''), (''bmp'', ''image/bmp''), (''gif'', ''image/gif'')]"

definition detect_mime :: "'img ocr_env \<Rightarrow> string \<Rightarrow> string" where
  "detect_mime env path =
     (case magic_from_file env path of
        Inr m \<Rightarrow> m
      | Inl e \<Rightarrow>
          (let ext = (if CHR ''.'' \<in> set path
                      then py_lower (rev (takeWhile (\<lambda>c. c \<noteq> CHR ''.'') (rev path)))
                      else [])
           in case mime_map ext of Some m \<Rightarrow> m | None \<Rightarrow> ''application/octet-stream''))"

definition pdf_to_images :: "'img ocr_env \<Rightarrow> string \<Rightarrow> 'img list" where
  "pdf_to_images env pdf_path =
     (case convert_from_path env pdf_path of Inr images \<Rightarrow> images | Inl e \<Rightarrow> [])"

definition is_pdf :: "'img ocr_env \<Rightarrow> string \<Rightarrow> bool" where
  \<comment> \<open>the test \<^verbatim>\<open>mime == "application/pdf" or abs_path.lower().endswith(".pdf")\<close>\<close>
  "is_pdf env abs_path =
     (detect_mime env abs_path = ''application/pdf'' \<or> py_endswith (py_lower abs_path) ''.pdf'')"

definition tesseract_ocr :: "'img ocr_env \<Rightarrow> string \<Rightarrow> exn + string" where
  "tesseract_ocr env abs_path =
     (if is_pdf env abs_path then
        (case map_exn (image_to_string env) (pdf_to_images env abs_path) of
           Inl e \<Rightarrow> Inl e
         | Inr texts \<Rightarrow> Inr (py_join [CHR 0x0A, CHR 0x0A] texts))
      else
        (case Image_open env abs_path of
           Inl e \<Rightarrow> Inl e
         | Inr img \<Rightarrow> image_to_string env img))"

definition ollama_vision_ocr :: "'img ocr_env \<Rightarrow> string \<Rightarrow> exn + string" where
  "ollama_vision_ocr env abs_path =
     (if is_pdf env abs_path then
        (case pdf_to_images env abs_path of
           [] \<Rightarrow> Inr []
         | img # _ \<Rightarrow> vision_generate env img)
      else
        (case Image_open env abs_path of
           Inl e \<Rightarrow> Inl e
         | Inr img \<Rightarrow> vision_generate env img))"

definition extract_text :: "'img ocr_env \<Rightarrow> string \<Rightarrow> exn + string" where
  "extract_text env file_path =
     (let abs_path = resolve_path env file_path
      in if \<not> os_path_exists env abs_path then Inr []
         else
           (let text0 = (case tesseract_ocr env abs_path of Inr t \<Rightarrow> t | Inl e \<Rightarrow> []);
                text1 =
                  (if length (py_strip text0) < 50 then
                     (case ollama_vision_ocr env abs_path of
                        Inr vision_text \<Rightarrow>
                          (if length (py_strip vision_text) > length (py_strip text0)
                           then vision_text else text0)
                      | Inl e \<Rightarrow> text0)
                   else text0)
            in Inr (py_strip text1)))"

subsection \<open>Two concrete environments\<close>

definition ocr_env_missing :: "unit ocr_env" where
  \<comment> \<open>no file exists\<close>
  "ocr_env_missing =
     \<lparr>MEDIA_DIR = ''/media'',
      os_path_exists = (\<lambda>p. False),
      magic_from_file = (\<lambda>p. Inr ''application/pdf''),
      convert_from_path = (\<lambda>p. Inl (Exn OtherException ''no such file'')),
      Image_open = (\<lambda>p. Inl (Exn OtherException ''no such file'')),
      image_to_string = (\<lambda>i. Inr []),
      vision_generate = (\<lambda>i. Inr [])\<rparr>"

definition ocr_env_blank :: "unit ocr_env" where
  \<comment> \<open>every file is an image on which the OCR engine reads one space and the vision
      model reads nothing\<close>
  "ocr_env_blank =
     \<lparr>MEDIA_DIR = ''/media'',
      os_path_exists = (\<lambda>p. True),
      magic_from_file = (\<lambda>p. Inr ''image/png''),
      convert_from_path = (\<lambda>p. Inr []),
      Image_open = (\<lambda>p. Inr ()),
      image_to_string = (\<lambda>i. Inr '' ''),
      vision_generate = (\<lambda>i. Inr [])\<rparr>"

section \<open>The data model (models.py)\<close>

text \<open>
  A document id is a UUID, a 128-bit value. The other tables have integer keys from a
  sequence. Timestamps are points on an integer time line. A nullable column is an
  \<open>option\<close>. An embedding is a vector of numbers; Python's floats are modelled by
  the real numbers throughout, so rounding and the value NaN have no counterpart in the
  model.
\<close>

type_synonym uuid = "128 word"

type_synonym datetime = int

datatype DocumentStatus = DS_pending | DS_processing | DS_done | DS_error

record document =
  title :: "string option"
  content :: "string option"
  original_filename :: string
  file_path :: string
  thumbnail_path :: "string option"
  document_type_id :: "int option"
  correspondent_id :: "int option"
  created_date :: "datetime option"
  added_date :: datetime
  modified_date :: datetime
  status :: DocumentStatus
  embedding :: "real list option"
  page_count :: "int option"
  file_size :: "int option"
  mime_type :: "string option"

record tag =
  tag_id :: int
  tag_name :: string
  tag_color :: string
  tag_slug :: string

record document_type =
  dt_id :: int
  dt_name :: string
  dt_slug :: string

record correspondent =
  corr_id :: int
  corr_name :: string
  corr_slug :: string

record custom_field =
  cf_document_id :: uuid
  field_name :: string
  field_value :: "string option"
  field_type :: string

record processing_log =
  log_document_id :: uuid
  step :: string
  log_status :: string
  message :: string

section \<open>Hybrid search (api/documents.py, search_documents)\<close>







definition coalesce_content :: "document \<Rightarrow> string" where
  \<comment> \<open>\<^verbatim>\<open>coalesce(Document.content, '')\<close>, also \<^verbatim>\<open>doc.content or ""\<close>\<close>
  "coalesce_content d = (case content d of None \<Rightarrow> [] | Some c \<Rightarrow> c)"








subsection \<open>A concrete search\<close>

definition example_document :: document where
  "example_document =
     \<lparr>title = None, content = None, original_filename = ''scan.pdf'',
      file_path = ''2024/01/scan.pdf'', thumbnail_path = None, document_type_id = None,
      correspondent_id = None, created_date = None, added_date = 0, modified_date = 0,
      status = DS_pending, embedding = None, page_count = None, file_size = Some 1024,
      mime_type = Some ''application/pdf''\<rparr>"




section \<open>Slugs (tasks/process.py, _slugify)\<close>

definition py_isword :: "char \<Rightarrow> bool" where
  \<comment> \<open>the class \<^verbatim>\<open>\w\<close> of \<^verbatim>\<open>re\<close> on a code point below 256: the underscore and
      what \<^verbatim>\<open>str.isalnum\<close> accepts\<close>
  "py_isword c =
     (let n = (of_char c :: nat)
      in (48 \<le> n \<and> n \<le> 57) \<or> (65 \<le> n \<and> n \<le> 90) \<or> n = 95 \<or> (97 \<le> n \<and> n \<le> 122)
         \<or> n = 170 \<or> n = 178 \<or> n = 179 \<or> n = 181 \<or> n = 185 \<or> n = 186
         \<or> (188 \<le> n \<and> n \<le> 190) \<or> (192 \<le> n \<and> n \<le> 214) \<or> (216 \<le> n \<and> n \<le> 246)
         \<or> 248 \<le> n)"

function sub_runs :: "(char \<Rightarrow> bool) \<Rightarrow> string \<Rightarrow> string \<Rightarrow> string" where
  \<comment> \<open>\<^verbatim>\<open>re.sub("[...]+", repl, s)\<close>: every maximal run of characters of the class
      becomes one copy of the replacement\<close>
  "sub_runs P repl [] = []"
| "sub_runs P repl (c # cs) =
     (if P c then repl @ sub_runs P repl (dropWhile P cs) else c # sub_runs P repl cs)"
  by pat_completeness auto
termination
  by (relation "measure (\<lambda>(P, repl, s). length s)")
     (auto simp: length_dropWhile_le less_Suc_eq_le)

definition slugify :: "string \<Rightarrow> string" where
  "slugify name =
     (let slug = py_strip (py_lower name);
          slug = filter (\<lambda>c. py_isword c \<or> py_isspace c \<or> c = CHR ''-'') slug;
          slug = sub_runs (\<lambda>c. py_isspace c \<or> c = CHR ''_'') ''-'' slug;
          slug = py_strip_chars (\<lambda>c. c = CHR ''-'') (sub_runs (\<lambda>c. c = CHR ''-'') ''-'' slug)
      in if slug = [] then ''untitled'' else slug)"

section \<open>The store and the services of the pipeline\<close>

text \<open>
  The relational store is a record of its tables. The documents table is a map from
  the primary key; the other tables are lists of rows in insertion order, and the three
  vocabulary tables carry the next value of their id sequence. The surrogate keys and
  the server-side timestamps of \<^verbatim>\<open>custom_fields\<close> and \<^verbatim>\<open>processing_logs\<close> are left
  out. Store operations themselves do not fail in this model, so the outermost
  \<^verbatim>\<open>except\<close> clause of the two tasks (mark the document, log \<^verbatim>\<open>fatal\<close>, retry the
  task), which only a failing store operation can reach, has no branch here.
\<close>

record db =
  documents :: "uuid \<rightharpoonup> document"
  tags :: "tag list"
  document_types :: "document_type list"
  correspondents :: "correspondent list"
  document_tags :: "(uuid \<times> int) list"
  custom_fields :: "custom_field list"
  processing_logs :: "processing_log list"
  tags_id_seq :: int
  document_types_id_seq :: int
  correspondents_id_seq :: int

record ClassificationResult =
  cr_title :: string
  cr_tags :: "string list"
  cr_document_type :: string
  cr_correspondent :: string
  cr_date :: "string option"
  cr_summary :: string

record ExtractedField =
  ef_name :: string
  ef_value :: string
  ef_type :: string

record file_info =
  \<comment> \<open>the dictionary returned by \<^verbatim>\<open>get_file_info\<close>; \<open>None\<close> is a missing key\<close>
  fi_size :: "int option"
  fi_mime_type :: "string option"
  fi_pages :: "int option"

text \<open>
  The five services, the UUID parser, the date parser and the clock are the pipeline's
  environment. A service call stands for the whole of its use in a \<^verbatim>\<open>try\<close> block
  (the import, the constructor, the call), so each may raise.
\<close>

record pipeline_env =
  uuid_UUID :: "string \<Rightarrow> exn + uuid"
  ocr_extract_text :: "string \<Rightarrow> exn + string"
  classifier_classify :: "string \<Rightarrow> string list \<Rightarrow> string list \<Rightarrow> string list \<Rightarrow> exn + ClassificationResult"
  datetime_fromisoformat :: "string \<Rightarrow> exn + datetime"
  extractor_extract_fields :: "string \<Rightarrow> exn + ExtractedField list"
  emb_service_embed_text :: "string \<Rightarrow> exn + real list"
  THUMBNAIL_DIR :: string
  os_makedirs :: "string \<Rightarrow> exn option"
  pdf_service_generate_thumbnail :: "string \<Rightarrow> string \<Rightarrow> exn + bool"
  pdf_service_get_file_info :: "string \<Rightarrow> exn + file_info"
  datetime_utcnow :: datetime

datatype task_result =
    Returned "(string \<times> string) list"
  | Raised exn

function py_str_nat :: "nat \<Rightarrow> string" where
  \<comment> \<open>\<^verbatim>\<open>str(n)\<close> of a natural number, as an f-string prints a length\<close>
  "py_str_nat n =
     (if n < 10 then [char_of (48 + n)]
      else py_str_nat (n div 10) @ [char_of (48 + n mod 10)])"
  by pat_completeness auto
termination
  by (relation "measure id") auto

definition hex_digit :: "nat \<Rightarrow> char" where
  "hex_digit n = (if n < 10 then char_of (48 + n) else char_of (87 + n))"

definition uuid_hex :: "uuid \<Rightarrow> string" where
  \<comment> \<open>\<^verbatim>\<open>UUID.hex\<close>: the 32 hexadecimal digits, most significant first\<close>
  "uuid_hex u = map (\<lambda>i. hex_digit (unat (drop_bit (4 * (31 - i)) u AND 15))) [0..<32]"

definition scalar_one_or_none :: "'a list \<Rightarrow> exn + 'a option" where
  \<comment> \<open>SQLAlchemy's \<^verbatim>\<open>Result.scalar_one_or_none\<close> on the rows a query selects\<close>
  "scalar_one_or_none rows =
     (case rows of
        [] \<Rightarrow> Inr None
      | [x] \<Rightarrow> Inr (Some x)
      | _ \<Rightarrow> Inl (Exn MultipleResultsFound
                 ''Multiple rows were found when one or none was required''))"

definition log_step :: "db \<Rightarrow> uuid \<Rightarrow> string \<Rightarrow> string \<Rightarrow> string \<Rightarrow> db" where
  "log_step session document_id stp st msg =
     session\<lparr>processing_logs := processing_logs session @
       [\<lparr>log_document_id = document_id, step = stp, log_status = st, message = msg\<rparr>]\<rparr>"

definition commit :: "db \<Rightarrow> uuid \<Rightarrow> document \<Rightarrow> db" where
  \<comment> \<open>the task changes the attributes of the loaded row object \<^verbatim>\<open>doc\<close>;
      \<^verbatim>\<open>session.commit()\<close> makes them the row of the table\<close>
  "commit session doc_uuid doc = session\<lparr>documents := (documents session)(doc_uuid \<mapsto> doc)\<rparr>"

section \<open>The stages of the pipeline (tasks/process.py)\<close>

text \<open>
  A stage is the body of one \<^verbatim>\<open>try\<close> block with its \<^verbatim>\<open>except\<close> clause. The
  body of a stage returns the exception that ended it, if any, next to the row object
  and the session as they are at that point: what the body did before it raised stays
  done.
\<close>

subsection \<open>Step 2: classification\<close>

definition apply_title :: "ClassificationResult \<Rightarrow> document \<Rightarrow> document" where
  "apply_title result doc = (if cr_title result \<noteq> [] then doc\<lparr>title := Some (cr_title result)\<rparr> else doc)"

definition apply_date :: "pipeline_env \<Rightarrow> ClassificationResult \<Rightarrow> document \<Rightarrow> exn + document" where
  \<comment> \<open>a \<^verbatim>\<open>ValueError\<close> of \<^verbatim>\<open>fromisoformat\<close> is passed over, any other exception
      leaves the block\<close>
  "apply_date env result doc =
     (case cr_date result of
        None \<Rightarrow> Inr doc
      | Some d \<Rightarrow>
          (if d = [] then Inr doc
           else (case datetime_fromisoformat env d of
                   Inr t \<Rightarrow> Inr (doc\<lparr>created_date := Some t\<rparr>)
                 | Inl e \<Rightarrow> (if exn_class_of e = ValueError then Inr doc else Inl e))))"

definition get_or_create_document_type :: "string \<Rightarrow> db \<Rightarrow> exn + (int \<times> db)" where
  "get_or_create_document_type name session =
     (let slug = slugify name
      in case scalar_one_or_none (filter (\<lambda>t. dt_slug t = slug) (document_types session)) of
           Inl e \<Rightarrow> Inl e
         | Inr (Some dt) \<Rightarrow> Inr (dt_id dt, session)
         | Inr None \<Rightarrow>
             (let dt = \<lparr>dt_id = document_types_id_seq session, dt_name = name, dt_slug = slug\<rparr>
              in Inr (dt_id dt,
                      session\<lparr>document_types := document_types session @ [dt],
                              document_types_id_seq := document_types_id_seq session + 1\<rparr>)))"

definition get_or_create_correspondent :: "string \<Rightarrow> db \<Rightarrow> exn + (int \<times> db)" where
  "get_or_create_correspondent name session =
     (let slug = slugify name
      in case scalar_one_or_none (filter (\<lambda>c. corr_slug c = slug) (correspondents session)) of
           Inl e \<Rightarrow> Inl e
         | Inr (Some corr) \<Rightarrow> Inr (corr_id corr, session)
         | Inr None \<Rightarrow>
             (let corr = \<lparr>corr_id = correspondents_id_seq session, corr_name = name, corr_slug = slug\<rparr>
              in Inr (corr_id corr,
                      session\<lparr>correspondents := correspondents session @ [corr],
                              correspondents_id_seq := correspondents_id_seq session + 1\<rparr>)))"

definition get_or_create_tag :: "string \<Rightarrow> string \<Rightarrow> db \<Rightarrow> exn + (tag \<times> db)" where
  "get_or_create_tag name slug session =
     (case scalar_one_or_none (filter (\<lambda>t. tag_slug t = slug) (tags session)) of
        Inl e \<Rightarrow> Inl e
      | Inr (Some t) \<Rightarrow> Inr (t, session)
      | Inr None \<Rightarrow>
          (let t = \<lparr>tag_id = tags_id_seq session, tag_name = name,
                    tag_color = ''#3b82f6'', tag_slug = slug\<rparr>
           in Inr (t, session\<lparr>tags := tags session @ [t],
                              tags_id_seq := tags_id_seq session + 1\<rparr>)))"

definition associate_tag :: "uuid \<Rightarrow> tag \<Rightarrow> db \<Rightarrow> exn + db" where
  "associate_tag doc_uuid t session =
     (case scalar_one_or_none
             (filter (\<lambda>(d, i). d = doc_uuid \<and> i = tag_id t) (document_tags session)) of
        Inl e \<Rightarrow> Inl e
      | Inr (Some existing_assoc) \<Rightarrow> Inr session
      | Inr None \<Rightarrow>
          Inr (session\<lparr>document_tags := document_tags session @ [(doc_uuid, tag_id t)]\<rparr>))"

fun tag_loop :: "uuid \<Rightarrow> string list \<Rightarrow> db \<Rightarrow> exn option \<times> db" where
  \<comment> \<open>\<^verbatim>\<open>for tag_name in result.tags\<close>\<close>
  "tag_loop doc_uuid [] session = (None, session)"
| "tag_loop doc_uuid (name # names) session =
     (let slug = slugify name
      in if slug = [] then tag_loop doc_uuid names session
         else (case get_or_create_tag name slug session of
                 Inl e \<Rightarrow> (Some e, session)
               | Inr (t, session1) \<Rightarrow>
                   (case associate_tag doc_uuid t session1 of
                      Inl e \<Rightarrow> (Some e, session1)
                    | Inr session2 \<Rightarrow> tag_loop doc_uuid names session2)))"

definition classify_body ::
  "pipeline_env \<Rightarrow> uuid \<Rightarrow> string \<Rightarrow> document \<times> db \<Rightarrow> exn option \<times> document \<times> db" where
  "classify_body env doc_uuid text = (\<lambda>(doc, session).
     (let existing_tags = map tag_name (tags session);
          existing_types = map dt_name (document_types session);
          existing_corr = map corr_name (correspondents session)
      in case classifier_classify env text existing_tags existing_types existing_corr of
           Inl e \<Rightarrow> (Some e, doc, session)
         | Inr result \<Rightarrow>
             (let doc1 = apply_title result doc
              in case apply_date env result doc1 of
                   Inl e \<Rightarrow> (Some e, doc1, session)
                 | Inr doc2 \<Rightarrow>
                     (case (if cr_document_type result \<noteq> []
                            then (case get_or_create_document_type (cr_document_type result) session of
                                    Inl e \<Rightarrow> Inl e
                                  | Inr (i, s1) \<Rightarrow> Inr (doc2\<lparr>document_type_id := Some i\<rparr>, s1))
                            else Inr (doc2, session)) of
                        Inl e \<Rightarrow> (Some e, doc2, session)
                      | Inr (doc3, session3) \<Rightarrow>
                          (case (if cr_correspondent result \<noteq> []
                                 then (case get_or_create_correspondent (cr_correspondent result) session3 of
                                         Inl e \<Rightarrow> Inl e
                                       | Inr (i, s1) \<Rightarrow> Inr (doc3\<lparr>correspondent_id := Some i\<rparr>, s1))
                                 else Inr (doc3, session3)) of
                             Inl e \<Rightarrow> (Some e, doc3, session3)
                           | Inr (doc4, session4) \<Rightarrow>
                               (case tag_loop doc_uuid (cr_tags result) session4 of
                                  (Some e, session5) \<Rightarrow> (Some e, doc4, session5)
                                | (None, session5) \<Rightarrow>
                                    (None, doc4,
                                     log_step session5 doc_uuid ''classify'' ''success''
                                       (''Title: '' @ cr_title result))))))))"

definition classify_stage ::
  "pipeline_env \<Rightarrow> uuid \<Rightarrow> string \<Rightarrow> document \<times> db \<Rightarrow> document \<times> db" where
  "classify_stage env doc_uuid text st =
     (case classify_body env doc_uuid text st of
        (None, doc, session) \<Rightarrow> (doc, session)
      | (Some e, doc, session) \<Rightarrow>
          (doc, log_step session doc_uuid ''classify'' ''error'' (py_str_exn e)))"

subsection \<open>Step 3: field extraction\<close>

definition custom_field_of :: "uuid \<Rightarrow> ExtractedField \<Rightarrow> custom_field" where
  "custom_field_of doc_uuid field =
     \<lparr>cf_document_id = doc_uuid, field_name = ef_name field,
      field_value = Some (ef_value field), field_type = ef_type field\<rparr>"

definition fields_stage ::
  "pipeline_env \<Rightarrow> uuid \<Rightarrow> string \<Rightarrow> document \<times> db \<Rightarrow> document \<times> db" where
  "fields_stage env doc_uuid text = (\<lambda>(doc, session).
     (case extractor_extract_fields env text of
        Inl e \<Rightarrow> (doc, log_step session doc_uuid ''fields'' ''error'' (py_str_exn e))
      | Inr extracted \<Rightarrow>
          (doc,
           log_step
             (session\<lparr>custom_fields := custom_fields session @ map (custom_field_of doc_uuid) extracted\<rparr>)
             doc_uuid ''fields'' ''success''
             (''Extracted '' @ py_str_nat (length extracted) @ '' fields''))))"

subsection \<open>Step 4: embedding\<close>

definition embeddings_stage ::
  "pipeline_env \<Rightarrow> uuid \<Rightarrow> string \<Rightarrow> document \<times> db \<Rightarrow> document \<times> db" where
  "embeddings_stage env doc_uuid text = (\<lambda>(doc, session).
     (case emb_service_embed_text env text of
        Inl e \<Rightarrow> (doc, log_step session doc_uuid ''embeddings'' ''error'' (py_str_exn e))
      | Inr v \<Rightarrow>
          (doc\<lparr>embedding := Some v\<rparr>,
           log_step session doc_uuid ''embeddings'' ''success'' ''Generated 384-dim embedding'')))"

subsection \<open>Step 5: thumbnail and file info\<close>

definition falsy_int :: "int option \<Rightarrow> bool" where
  \<comment> \<open>\<^verbatim>\<open>not x\<close> for an optional integer: \<^verbatim>\<open>None\<close> and 0\<close>
  "falsy_int x = (x = None \<or> x = Some 0)"

definition falsy_str :: "string option \<Rightarrow> bool" where
  \<comment> \<open>\<^verbatim>\<open>not x\<close> for an optional string: \<^verbatim>\<open>None\<close> and the empty string\<close>
  "falsy_str x = (x = None \<or> x = Some [])"

definition apply_file_info :: "file_info \<Rightarrow> document \<Rightarrow> document" where
  \<comment> \<open>lines 205-209\<close>
  "apply_file_info fi doc =
     (let doc1 = doc\<lparr>page_count := Some (case fi_pages fi of None \<Rightarrow> 0 | Some n \<Rightarrow> n)\<rparr>;
          doc2 = (if falsy_int (file_size doc1)
                  then doc1\<lparr>file_size := Some (case fi_size fi of None \<Rightarrow> 0 | Some n \<Rightarrow> n)\<rparr>
                  else doc1);
          doc3 = (if falsy_str (mime_type doc2)
                  then doc2\<lparr>mime_type := Some (case fi_mime_type fi of None \<Rightarrow> [] | Some m \<Rightarrow> m)\<rparr>
                  else doc2)
      in doc3)"

definition thumbnail_stage ::
  "pipeline_env \<Rightarrow> uuid \<Rightarrow> document \<times> db \<Rightarrow> document \<times> db" where
  "thumbnail_stage env doc_uuid = (\<lambda>(doc, session).
     (let thumb_relative = uuid_hex doc_uuid @ ''.png'';
          thumb_abs = os_path_join (THUMBNAIL_DIR env) thumb_relative
      in case os_makedirs env (THUMBNAIL_DIR env) of
           Some e \<Rightarrow> (doc, log_step session doc_uuid ''thumbnail'' ''error'' (py_str_exn e))
         | None \<Rightarrow>
             (case pdf_service_generate_thumbnail env (file_path doc) thumb_abs of
                Inl e \<Rightarrow> (doc, log_step session doc_uuid ''thumbnail'' ''error'' (py_str_exn e))
              | Inr success \<Rightarrow>
                  (let doc1 = (if success then doc\<lparr>thumbnail_path := Some thumb_relative\<rparr> else doc)
                   in case pdf_service_get_file_info env (file_path doc1) of
                        Inl e \<Rightarrow> (doc1, log_step session doc_uuid ''thumbnail'' ''error'' (py_str_exn e))
                      | Inr fi \<Rightarrow>
                          (apply_file_info fi doc1,
                           log_step session doc_uuid ''thumbnail'' ''success''
                             ''Thumbnail generated'')))))"

section \<open>The two tasks\<close>

definition process_document :: "pipeline_env \<Rightarrow> db \<Rightarrow> string \<Rightarrow> task_result \<times> db" where
  "process_document env session document_id =
     (case uuid_UUID env document_id of
        Inl e \<Rightarrow> (Raised e, session)
      | Inr doc_uuid \<Rightarrow>
          (case documents session doc_uuid of
             None \<Rightarrow> (Returned [(''status'', ''error''), (''message'', ''Document not found'')], session)
           | Some doc0 \<Rightarrow>
               (let doc = doc0\<lparr>status := DS_processing\<rparr>;
                    session1 = log_step session doc_uuid ''start'' ''info'' ''Processing started''
                in case ocr_extract_text env (file_path doc) of
                     Inl e \<Rightarrow>
                       (Returned [(''status'', ''error''), (''step'', ''ocr''), (''message'', py_str_exn e)],
                        commit (log_step session1 doc_uuid ''ocr'' ''error'' (py_str_exn e))
                          doc_uuid (doc\<lparr>status := DS_error\<rparr>))
                   | Inr text \<Rightarrow>
                       (let st1 = (doc\<lparr>content := Some text\<rparr>,
                                   log_step session1 doc_uuid ''ocr'' ''success''
                                     (''Extracted '' @ py_str_nat (length text) @ '' characters''));
                            st2 = classify_stage env doc_uuid text st1;
                            st3 = fields_stage env doc_uuid text st2;
                            st4 = embeddings_stage env doc_uuid text st3;
                            st5 = thumbnail_stage env doc_uuid st4;
                            doc5 = (fst st5)\<lparr>status := DS_done, modified_date := datetime_utcnow env\<rparr>;
                            session5 = log_step (snd st5) doc_uuid ''complete'' ''success''
                                         ''Processing complete''
                        in (Returned [(''status'', ''done''), (''document_id'', document_id)],
                            commit session5 doc_uuid doc5)))))"

definition reocr :: "pipeline_env \<Rightarrow> document \<Rightarrow> string \<times> document" where
  \<comment> \<open>lines 256-267: the stored text, or a new OCR result when the stored text is blank;
      a failure of the new OCR is logged to the console and passed over\<close>
  "reocr env doc =
     (let text = coalesce_content doc
      in if py_strip text = [] then
           (case ocr_extract_text env (file_path doc) of
              Inr text' \<Rightarrow> (text', doc\<lparr>content := Some text'\<rparr>)
            | Inl e \<Rightarrow> (text, doc))
         else (text, doc))"

definition reclassify_stage ::
  "pipeline_env \<Rightarrow> uuid \<Rightarrow> string \<Rightarrow> document \<times> db \<Rightarrow> document \<times> db" where
  "reclassify_stage env doc_uuid text = (\<lambda>(doc, session).
     (let existing_tags = map tag_name (tags session);
          existing_types = map dt_name (document_types session);
          existing_corr = map corr_name (correspondents session)
      in case classifier_classify env text existing_tags existing_types existing_corr of
           Inl e \<Rightarrow> (doc, log_step session doc_uuid ''reclassify'' ''error'' (py_str_exn e))
         | Inr result \<Rightarrow>
             (let doc1 = apply_title result doc
              in case apply_date env result doc1 of
                   Inl e \<Rightarrow> (doc1, log_step session doc_uuid ''reclassify'' ''error'' (py_str_exn e))
                 | Inr doc2 \<Rightarrow>
                     (doc2, log_step session doc_uuid ''reclassify'' ''success''
                              (''Title: '' @ cr_title result)))))"

definition delete_old_fields :: "uuid \<Rightarrow> db \<Rightarrow> db" where
  \<comment> \<open>lines 294-297\<close>
  "delete_old_fields doc_uuid session =
     session\<lparr>custom_fields := filter (\<lambda>cf. cf_document_id cf \<noteq> doc_uuid) (custom_fields session)\<rparr>"

definition reextract_fields_stage ::
  "pipeline_env \<Rightarrow> uuid \<Rightarrow> string \<Rightarrow> document \<times> db \<Rightarrow> document \<times> db" where
  "reextract_fields_stage env doc_uuid text = (\<lambda>(doc, session).
     (case extractor_extract_fields env text of
        Inl e \<Rightarrow> (doc, log_step session doc_uuid ''reextract_fields'' ''error'' (py_str_exn e))
      | Inr extracted \<Rightarrow>
          (doc,
           log_step
             (session\<lparr>custom_fields := custom_fields session @ map (custom_field_of doc_uuid) extracted\<rparr>)
             doc_uuid ''reextract_fields'' ''success''
             (py_str_nat (length extracted) @ '' fields''))))"

definition reembed_stage ::
  "pipeline_env \<Rightarrow> uuid \<Rightarrow> string \<Rightarrow> document \<times> db \<Rightarrow> document \<times> db" where
  "reembed_stage env doc_uuid text = (\<lambda>(doc, session).
     (case emb_service_embed_text env text of
        Inl e \<Rightarrow> (doc, log_step session doc_uuid ''reembed'' ''error'' (py_str_exn e))
      | Inr v \<Rightarrow>
          (doc\<lparr>embedding := Some v\<rparr>,
           log_step session doc_uuid ''reembed'' ''success'' ''Embedding regenerated'')))"

definition reprocess_document :: "pipeline_env \<Rightarrow> db \<Rightarrow> string \<Rightarrow> task_result \<times> db" where
  "reprocess_document env session document_id =
     (case uuid_UUID env document_id of
        Inl e \<Rightarrow> (Raised e, session)
      | Inr doc_uuid \<Rightarrow>
          (case documents session doc_uuid of
             None \<Rightarrow> (Returned [(''status'', ''error''), (''message'', ''Document not found'')], session)
           | Some doc0 \<Rightarrow>
               (let doc = doc0\<lparr>status := DS_processing\<rparr>;
                    session1 = log_step session doc_uuid ''reprocess_start'' ''info''
                                 ''Reprocessing started'';
                    (text, doc1) = reocr env doc;
                    st2 = reclassify_stage env doc_uuid text (doc1, session1);
                    st3 = (fst st2, delete_old_fields doc_uuid (snd st2));
                    st4 = reextract_fields_stage env doc_uuid text st3;
                    st5 = reembed_stage env doc_uuid text st4;
                    doc5 = (fst st5)\<lparr>status := DS_done, modified_date := datetime_utcnow env\<rparr>;
                    session5 = log_step (snd st5) doc_uuid ''reprocess_complete'' ''success''
                                 ''Reprocessing complete''
                in (Returned [(''status'', ''done''), (''document_id'', document_id)],
                    commit session5 doc_uuid doc5))))"

subsection \<open>A concrete store and concrete services\<close>

definition pipeline_env_example :: pipeline_env where
  \<comment> \<open>every service answers; the classifier names a type, a correspondent and three
      tags, two of which have the same slug\<close>
  "pipeline_env_example =
     \<lparr>uuid_UUID = (\<lambda>s. if s = ''00000000-0000-0000-0000-000000000001'' then Inr 1
                       else if s = ''00000000-0000-0000-0000-000000000002'' then Inr 2
                       else Inl (Exn ValueError ''badly formed hexadecimal UUID string'')),
      ocr_extract_text = (\<lambda>p. Inr ''Invoice 42''),
      classifier_classify = (\<lambda>t ts tys cs. Inr
         \<lparr>cr_title = ''Invoice 42'', cr_tags = [''Tax'', ''tax'', ''Paid 2024''],
          cr_document_type = ''Invoice'', cr_correspondent = ''ACME'',
          cr_date = Some ''2024-01-31'', cr_summary = ''An invoice.''\<rparr>),
      datetime_fromisoformat = (\<lambda>d. Inr 1706659200),
      extractor_extract_fields = (\<lambda>t. Inr
         [\<lparr>ef_name = ''invoice_number'', ef_value = ''42'', ef_type = ''invoice_number''\<rparr>]),
      emb_service_embed_text = (\<lambda>t. Inr [1, 0]),
      THUMBNAIL_DIR = ''/thumbnails'',
      os_makedirs = (\<lambda>p. None),
      pdf_service_generate_thumbnail = (\<lambda>p out. Inr True),
      pdf_service_get_file_info = (\<lambda>p. Inr
         \<lparr>fi_size = Some 2048, fi_mime_type = Some ''image/png'', fi_pages = Some 3\<rparr>),
      datetime_utcnow = 1706700000\<rparr>"


definition db_example :: db where
  \<comment> \<open>one pending document, with one custom field and no log\<close>
  "db_example =
     \<lparr>documents = [1 \<mapsto> example_document],
      tags = [], document_types = [], correspondents = [], document_tags = [],
      custom_fields = [\<lparr>cf_document_id = 1, field_name = ''iban'',
                        field_value = Some ''DE02'', field_type = ''iban''\<rparr>],
      processing_logs = [],
      tags_id_seq = 1, document_types_id_seq = 1, correspondents_id_seq = 1\<rparr>"

(*DEFS-END*)

section \<open>Verification: strings and the chunker\<close>

lemma py_slice_within:
  "0 \<le> a \<Longrightarrow> a \<le> b \<Longrightarrow> py_slice xs a b = take (nat (b - a)) (drop (nat a) xs)"
  by (auto simp: py_slice_def Let_def min_def max_def)

lemma py_strip_blank: "\<forall>c \<in> set s. py_isspace c \<Longrightarrow> py_strip s = []"
  by (auto simp: py_strip_def py_strip_chars_def py_rstrip_def py_lstrip_def
        dest: set_dropWhileD)

lemma py_strip_id:
  assumes "s \<noteq> []" "\<not> py_isspace (hd s)" "\<not> py_isspace (last s)"
  shows "py_strip s = s"
proof -
  have l: "dropWhile py_isspace s = s"
    using assms(1,2) by (cases s) auto
  have "rev s \<noteq> []" "\<not> py_isspace (hd (rev s))"
    using assms(1,3) by (simp_all add: hd_rev)
  then have "dropWhile py_isspace (rev s) = rev s"
    by (cases "rev s") auto
  with l show ?thesis
    by (simp add: py_strip_def py_strip_chars_def py_rstrip_def py_lstrip_def)
qed

lemma space_isspace: "py_isspace (CHR '' '')"
  by (simp add: py_isspace_def)

subsection \<open>Termination of the chunking loop\<close>

lemma chunk_loop_terminates:
  assumes "overlap < chunk_size"
  shows "\<exists>y. chunk_loop text chunk_size overlap start chunks = Some y"
proof (induction "nat (int (length text) - start)" arbitrary: start chunks rule: less_induct)
  case less
  show ?case
  proof (cases "start < int (length text)")
    case False
    then show ?thesis by (subst chunk_loop.simps) simp
  next
    case True
    let ?start' = "start + (chunk_size - overlap)"
    have "nat (int (length text) - ?start') < nat (int (length text) - start)"
      using True assms by linarith
    from less [OF this]
    have "\<And>chunks'. \<exists>y. chunk_loop text chunk_size overlap ?start' chunks' = Some y"
      by blast
    then show ?thesis
      using True by (subst chunk_loop.simps) (simp add: Let_def)
  qed
qed

text \<open>
  With a step \<open>chunk_size - overlap \<le> 0\<close> the start index never gets past 0, so on a
  non-empty text the loop has no result: by the induction rule of the partial function,
  no result \<open>Some y\<close> can come out of a state with \<open>start \<le> 0\<close>.
\<close>

lemma chunk_loop_diverges_aux:
  assumes "chunk_loop text chunk_size overlap start chunks = Some y"
  shows "\<not> (chunk_size \<le> overlap \<and> start \<le> 0 \<and> text \<noteq> [])"
proof (rule chunk_loop.raw_induct
    [where P = "\<lambda>t cs ov st ch y. \<not> (cs \<le> ov \<and> st \<le> 0 \<and> t \<noteq> [])", OF _ assms])
  fix f :: "string \<Rightarrow> int \<Rightarrow> int \<Rightarrow> int \<Rightarrow> string list \<Rightarrow> string list option"
  fix t cs ov st ch y
  assume IH: "\<And>t cs ov st ch y. f t cs ov st ch = Some y \<Longrightarrow>
                \<not> (cs \<le> ov \<and> st \<le> 0 \<and> t \<noteq> [])"
  assume body: "(if st < int (length t) then
        (let end = st + cs;
             chunk = py_slice t st end;
             chunks' = (if py_strip chunk \<noteq> [] then ch @ [py_strip chunk] else ch)
         in f t cs ov (st + (cs - ov)) chunks')
      else Some ch) = Some y"
  show "\<not> (cs \<le> ov \<and> st \<le> 0 \<and> t \<noteq> [])"
  proof
    assume a: "cs \<le> ov \<and> st \<le> 0 \<and> t \<noteq> []"
    then have lt: "st < int (length t)" by (cases t) auto
    from a have le: "st + (cs - ov) \<le> 0" by linarith
    from body lt obtain ch' where "f t cs ov (st + (cs - ov)) ch' = Some y"
      by (auto simp: Let_def split: if_splits)
    from IH [OF this] a le show False by blast
  qed
qed

lemma chunk_loop_diverges:
  "chunk_size \<le> overlap \<Longrightarrow> start \<le> 0 \<Longrightarrow> text \<noteq> [] \<Longrightarrow>
     chunk_loop text chunk_size overlap start chunks = None"
  using chunk_loop_diverges_aux [of "text" chunk_size overlap start chunks]
  by (cases "chunk_loop text chunk_size overlap start chunks") auto

text \<open>
  C6 (as amended). \<^verbatim>\<open>chunk_text\<close> checks nothing about its parameters. The call
  returns exactly when the text is empty or \<open>overlap < chunk_size\<close>; on a non-empty
  text with \<open>overlap \<ge> chunk_size\<close> it never returns.
\<close>

theorem chunk_text_terminates_iff:
  "(\<exists>y. chunk_text text chunk_size overlap = Some y) \<longleftrightarrow> (text = [] \<or> overlap < chunk_size)"
proof (cases "text = []")
  case True
  then show ?thesis by (simp add: chunk_text_def)
next
  case False
  show ?thesis
  proof (cases "overlap < chunk_size")
    case True
    then show ?thesis
      using chunk_loop_terminates [of overlap chunk_size "text" 0 "[]"] False
      by (simp add: chunk_text_def)
  next
    case ge: False
    then have "chunk_loop text chunk_size overlap 0 [] = None"
      using False by (intro chunk_loop_diverges) auto
    then show ?thesis using False ge by (simp add: chunk_text_def)
  qed
qed

text \<open>
  C6 as stated fails: with \<open>chunk_size = overlap = 1\<close> nothing rejects the
  parameters, and the call on the one-character text \<^verbatim>\<open>"a"\<close> never returns.
\<close>

theorem chunk_text_no_validation_counterexample:
  "chunk_text ''a'' 1 1 = None"
  by (simp add: chunk_text_def chunk_loop_diverges)

subsection \<open>The chunks of a 1200-character text\<close>

lemma chunk_loop_1200:
  assumes len: "length text = 1200"
  shows "chunk_loop text 500 50 0 [] =
     Some (map py_strip (filter (\<lambda>w. py_strip w \<noteq> [])
       [take 500 text, take 500 (drop 450 text), drop 900 text]))"
proof -
  have w0: "py_slice text 0 500 = take 500 text"
    by (simp add: py_slice_within)
  have w1: "py_slice text 450 950 = take 500 (drop 450 text)"
    by (simp add: py_slice_within)
  have w2: "py_slice text 900 1400 = drop 900 text"
    using len by (simp add: py_slice_within)
  have stop: "\<And>chunks. chunk_loop text 500 50 1350 chunks = Some chunks"
    using len by (subst chunk_loop.simps) simp
  have s2: "\<And>chunks. chunk_loop text 500 50 900 chunks =
      Some (if py_strip (drop 900 text) \<noteq> [] then chunks @ [py_strip (drop 900 text)] else chunks)"
    using len by (subst chunk_loop.simps) (simp add: w2 stop Let_def)
  have s1: "\<And>chunks. chunk_loop text 500 50 450 chunks =
      chunk_loop text 500 50 900
        (if py_strip (take 500 (drop 450 text)) \<noteq> []
         then chunks @ [py_strip (take 500 (drop 450 text))] else chunks)"
    using len by (subst chunk_loop.simps) (simp add: w1 Let_def)
  have s0: "chunk_loop text 500 50 0 [] =
      chunk_loop text 500 50 450
        (if py_strip (take 500 text) \<noteq> [] then [py_strip (take 500 text)] else [])"
    using len by (subst chunk_loop.simps) (simp add: w0 Let_def)
  show ?thesis
    unfolding s0 s1 s2 by simp
qed

text \<open>
  C7 (as amended). For a text of 1200 characters, \<^verbatim>\<open>chunk_text(text, 500, 50)\<close>
  slides three windows over the text, \<^verbatim>\<open>text[0:500]\<close>, \<^verbatim>\<open>text[450:950]\<close> and
  \<^verbatim>\<open>text[900:1200]\<close>. The windows cover the text, and each consecutive pair shares
  exactly 50 characters. What the call returns is each window stripped of leading and
  trailing whitespace, with the windows that are blank left out. On the empty text
  the call returns the empty list, whatever the parameters.
\<close>

theorem chunk_text_1200:
  assumes "length text = 1200"
  shows "chunk_text text 500 50 =
           Some (map py_strip (filter (\<lambda>w. py_strip w \<noteq> [])
             [take 500 text, take 500 (drop 450 text), drop 900 text]))
       \<and> take 450 (take 500 text) @ take 450 (take 500 (drop 450 text)) @ drop 900 text = text
       \<and> drop 450 (take 500 text) = take 50 (take 500 (drop 450 text))
       \<and> drop 450 (take 500 (drop 450 text)) = take 50 (drop 900 text)
       \<and> length (drop 450 (take 500 text)) = 50
       \<and> length (drop 450 (take 500 (drop 450 text))) = 50
       \<and> chunk_text [] chunk_size overlap = Some []"
proof -
  have ne: "text \<noteq> []" using assms by auto
  have a: "chunk_text text 500 50 =
           Some (map py_strip (filter (\<lambda>w. py_strip w \<noteq> [])
             [take 500 text, take 500 (drop 450 text), drop 900 text]))"
    using ne chunk_loop_1200 [OF assms] by (simp add: chunk_text_def)
  have "take 450 (drop 450 text) @ drop 900 text = drop 450 text"
    using append_take_drop_id [of 450 "drop 450 text"] by simp
  then have b: "take 450 (take 500 text) @ take 450 (take 500 (drop 450 text)) @ drop 900 text = text"
    by (simp add: min_def)
  have c: "drop 450 (take 500 text) = take 50 (take 500 (drop 450 text))"
    by (simp add: drop_take min_def)
  have d: "drop 450 (take 500 (drop 450 text)) = take 50 (drop 900 text)"
    by (simp add: drop_take min_def)
  have e: "length (drop 450 (take 500 text)) = 50"
    using assms by simp
  have f: "length (drop 450 (take 500 (drop 450 text))) = 50"
    using assms by simp
  have g: "chunk_text [] chunk_size overlap = Some []"
    by (simp add: chunk_text_def)
  from a b c d e f g show ?thesis by blast
qed

theorem chunk_text_1200_witness:
  "length (replicate 1200 (CHR ''a'')) = 1200
   \<and> chunk_text (replicate 1200 (CHR ''a'')) 500 50 =
       Some [replicate 500 (CHR ''a''), replicate 500 (CHR ''a''), replicate 300 (CHR ''a'')]"
proof -
  have len: "length (replicate 1200 (CHR ''a'')) = 1200" by simp
  have keep: "\<And>n. 0 < n \<Longrightarrow> py_strip (replicate n (CHR ''a'')) = replicate n (CHR ''a'')"
    by (rule py_strip_id) (simp_all add: py_isspace_def)
  show ?thesis
    using chunk_text_1200 [OF len] by (simp add: keep)
qed

text \<open>
  C7 as stated fails: on the text of 1200 spaces every window is blank, so the call
  returns no chunk at all and nothing of the text is covered.
\<close>

theorem chunk_text_blank_counterexample:
  "length (replicate 1200 (CHR '' '')) = 1200
   \<and> chunk_text (replicate 1200 (CHR '' '')) 500 50 = Some []"
proof -
  have "length (replicate 1200 (CHR '' '')) = 1200" by simp
  from chunk_loop_1200 [OF this] show ?thesis
    by (simp add: chunk_text_def py_strip_blank space_isspace)
qed

section \<open>Verification: the text extractor\<close>

text \<open>
  C5 (as amended). \<^verbatim>\<open>extract_text\<close> never raises, whatever the engines do: it
  returns a text for every path. When the file is missing it returns the empty string
  (the guard of lines 30-32 logs and returns), and so it does when neither engine finds
  a non-blank text.
\<close>

theorem extract_text_never_raises:
  "(\<exists>t. extract_text env p = Inr t)
   \<and> (\<not> os_path_exists env (resolve_path env p) \<longrightarrow> extract_text env p = Inr [])
   \<and> ((\<forall>t. tesseract_ocr env (resolve_path env p) = Inr t \<longrightarrow> py_strip t = [])
        \<and> (\<forall>t. ollama_vision_ocr env (resolve_path env p) = Inr t \<longrightarrow> py_strip t = [])
      \<longrightarrow> extract_text env p = Inr [])"
proof -
  have a: "\<exists>t. extract_text env p = Inr t"
    by (simp add: extract_text_def Let_def)
  have b: "\<not> os_path_exists env (resolve_path env p) \<longrightarrow> extract_text env p = Inr []"
    by (simp add: extract_text_def Let_def)
  have blank: "py_strip [] = []"
    by (simp add: py_strip_blank)
  have c: "(\<forall>t. tesseract_ocr env (resolve_path env p) = Inr t \<longrightarrow> py_strip t = [])
        \<and> (\<forall>t. ollama_vision_ocr env (resolve_path env p) = Inr t \<longrightarrow> py_strip t = [])
      \<longrightarrow> extract_text env p = Inr []"
    by (auto simp: extract_text_def Let_def blank split: sum.splits)
  from a b c show ?thesis by blast
qed

theorem extract_text_never_raises_witness:
  "(\<not> os_path_exists ocr_env_missing (resolve_path ocr_env_missing ''2024/01/scan.pdf'')
      \<and> extract_text ocr_env_missing ''2024/01/scan.pdf'' = Inr [])
   \<and> (tesseract_ocr ocr_env_blank (resolve_path ocr_env_blank ''scan.png'') = Inr '' ''
      \<and> ollama_vision_ocr ocr_env_blank (resolve_path ocr_env_blank ''scan.png'') = Inr []
      \<and> extract_text ocr_env_blank ''scan.png'' = Inr [])"
proof -
  have blank: "py_strip '' '' = []" "py_strip [] = []"
    by (simp_all add: py_strip_blank space_isspace)
  have t: "tesseract_ocr ocr_env_blank (resolve_path ocr_env_blank ''scan.png'') = Inr '' ''"
    by code_simp
  have v: "ollama_vision_ocr ocr_env_blank (resolve_path ocr_env_blank ''scan.png'') = Inr []"
    by code_simp
  have m: "\<not> os_path_exists ocr_env_missing (resolve_path ocr_env_missing ''2024/01/scan.pdf'')"
    by (simp add: ocr_env_missing_def)
  show ?thesis
    using extract_text_never_raises [of ocr_env_missing "''2024/01/scan.pdf''"]
      extract_text_never_raises [of ocr_env_blank "''scan.png''"] t v m
    by (simp add: blank)
qed

text \<open>
  C5 as stated fails in its second half: for a missing file the extractor does not
  raise, it returns the empty string.
\<close>

theorem extract_text_missing_file_counterexample:
  "resolve_path ocr_env_missing ''2024/01/scan.pdf'' = ''/media/2024/01/scan.pdf''
   \<and> os_path_exists ocr_env_missing ''/media/2024/01/scan.pdf'' = False
   \<and> extract_text ocr_env_missing ''2024/01/scan.pdf'' = Inr []"
  by (simp add: extract_text_def resolve_path_def os_path_isabs_def os_path_join_def
        ocr_env_missing_def)

section \<open>Verification: hybrid search\<close>























section \<open>Verification: the pipeline\<close>

text \<open>
  C10. When the id names no row of the documents table, the task returns the result
  \<^verbatim>\<open>{"status": "error", "message": "Document not found"}\<close>: it does not raise, and
  the store is as it was, with no document, log or field created or changed. The
  reprocessing task does the same. The id is taken as one that \<^verbatim>\<open>uuid.UUID\<close>
  accepts; the parser runs before the \<^verbatim>\<open>try\<close> block.
\<close>

theorem process_document_not_found:
  assumes "uuid_UUID env document_id = Inr doc_uuid"
    and "documents session doc_uuid = None"
  shows "process_document env session document_id =
           (Returned [(''status'', ''error''), (''message'', ''Document not found'')], session)
       \<and> reprocess_document env session document_id =
           (Returned [(''status'', ''error''), (''message'', ''Document not found'')], session)"
  using assms by (simp add: process_document_def reprocess_document_def)

theorem process_document_not_found_witness:
  "uuid_UUID pipeline_env_example ''00000000-0000-0000-0000-000000000002'' = Inr 2
   \<and> documents db_example 2 = None
   \<and> process_document pipeline_env_example db_example ''00000000-0000-0000-0000-000000000002'' =
       (Returned [(''status'', ''error''), (''message'', ''Document not found'')], db_example)"
proof -
  have a: "uuid_UUID pipeline_env_example ''00000000-0000-0000-0000-000000000002'' = Inr 2"
    by (simp add: pipeline_env_example_def)
  have b: "documents db_example 2 = None"
    by (simp add: db_example_def)
  from process_document_not_found [OF a b] a b show ?thesis by blast
qed




end
